theory Spec2Isabelle
  imports Main "HOL-Library.Sublist"
begin

section \<open>Catalog entity filters (plugins/catalog-react/src/filters.ts)\<close>

subsection \<open>Data model\<close>

text \<open>
  Modelled from the spec: the types \<open>Entity\<close>, \<open>CompoundEntityRef\<close> and \<open>AlphaEntity\<close>
  are imported by filters.ts from the catalog-model package, whose declarations are not
  part of the source at hand. The records follow section 3 of the specification. A field
  the specification calls optional is an \<open>option\<close>; \<open>None\<close> is JavaScript's
  \<open>undefined\<close>. \<open>namespace\<close> is kept optional as well (the specification gives it a
  default value), which only widens the set of entities the theorems speak about.
\<close>

text \<open>An entity reference: the triple kind, namespace, name.\<close>

datatype CompoundEntityRef =
  CompoundEntityRef (ref_kind: string) (ref_namespace: string) (ref_name: string)

text \<open>
  Modelled from the spec: a relation entry is \<open>{type: string, targetRef: string}\<close>
  (section 3); the target is the string form of a reference.
\<close>

record EntityRelation =
  type :: string
  targetRef :: string

record EntityMeta =
  name :: string
  namespace :: "string option"
  title :: "string option"
  tags :: "string list option"
  annotations :: "(string \<times> string) list option"

record EntitySpec =
  spec_type :: "string option"
  lifecycle :: "string option"

datatype EntityStatusItem = EntityStatusItem (message: string)

record EntityStatus =
  items :: "EntityStatusItem list option"

record Entity =
  metadata :: EntityMeta
  spec :: "EntitySpec option"
  relations :: "EntityRelation list option"
  status :: "EntityStatus option"

subsection \<open>Operations of the platform\<close>

text \<open>
  \<open>String.prototype.split\<close> with a separator that matches one character (the regular
  expression \<open>/\s/\<close> of the text filter): every separator character ends a piece, so
  the empty string gives one empty piece and two adjacent separators give an empty piece
  between them. The character class is the parameter \<open>sep\<close>.
\<close>

fun String_split :: "(char \<Rightarrow> bool) \<Rightarrow> string \<Rightarrow> string list" where
  "String_split sep [] = [[]]"
| "String_split sep (c # cs) =
     (if sep c then [] # String_split sep cs
      else (case String_split sep cs of
              [] \<Rightarrow> [[c]]
            | w # ws \<Rightarrow> (c # w) # ws))"

text \<open>\<open>String.prototype.includes\<close>: the argument occurs as a contiguous part.\<close>

definition String_includes :: "string \<Rightarrow> string \<Rightarrow> bool" where
  "String_includes m word = sublist word m"

text \<open>\<open>Array.prototype.includes\<close> on an array of strings.\<close>

definition Array_includes :: "string list \<Rightarrow> string \<Rightarrow> bool" where
  "Array_includes xs v = (v \<in> set xs)"

text \<open>\<open>Boolean.prototype.toString\<close> and \<open>String(b)\<close> for a boolean.\<close>

definition Boolean_toString :: "bool \<Rightarrow> string" where
  "Boolean_toString b = (if b then ''true'' else ''false'')"

text \<open>
  The comparison \<open>n > 0\<close> where \<open>n\<close> is a number or \<open>undefined\<close>: \<open>undefined\<close>
  converts to NaN, and every comparison with NaN is false.
\<close>

fun number_gt :: "nat option \<Rightarrow> nat \<Rightarrow> bool" where
  "number_gt None k = False"
| "number_gt (Some n) k = (k < n)"

text \<open>
  ASCII case mapping, the instance of \<open>toLocaleUpperCase('en-US')\<close> and
  \<open>toLocaleLowerCase('en-US')\<close> used for concrete inputs. The text filter itself takes
  its upper-casing function as a parameter.
\<close>

definition toUpperChar :: "char \<Rightarrow> char" where
  "toUpperChar c =
     (case map_of (zip ''abcdefghijklmnopqrstuvwxyz'' ''ABCDEFGHIJKLMNOPQRSTUVWXYZ'') c of
        None \<Rightarrow> c
      | Some u \<Rightarrow> u)"

definition toLowerChar :: "char \<Rightarrow> char" where
  "toLowerChar c =
     (case map_of (zip ''ABCDEFGHIJKLMNOPQRSTUVWXYZ'' ''abcdefghijklmnopqrstuvwxyz'') c of
        None \<Rightarrow> c
      | Some l \<Rightarrow> l)"

definition asciiUpperCase :: "string \<Rightarrow> string" where
  "asciiUpperCase s = map toUpperChar s"

definition asciiLowerCase :: "string \<Rightarrow> string" where
  "asciiLowerCase s = map toLowerChar s"

text \<open>
  The characters of the class \<open>\s\<close> among the ASCII characters: tab, line feed, vertical
  tab, form feed, carriage return and space.
\<close>

definition asciiWhitespace :: "char \<Rightarrow> bool" where
  "asciiWhitespace c = (c \<in> set [CHR 0x09, CHR 0x0A, CHR 0x0B, CHR 0x0C, CHR 0x0D, CHR '' ''])"

subsection \<open>Entity reference normalizer and relation lookup\<close>

text \<open>
  The errors: the parse error of the normalizer, the \<open>TypeError\<close> of a member access
  or method call on a value that has no such member, and \<open>NotModelled\<close> for an
  operation on operands whose conversion is left out of this development.
\<close>

datatype error = ParseError | TypeError | NotModelled

text \<open>
  Modelled from the spec: \<open>parseEntityRef\<close> and \<open>stringifyEntityRef\<close> belong to the
  catalog-model package and are not part of the source at hand. Section 4.1: the input is
  a bare name, \<open>namespace/name\<close> or \<open>kind:namespace/name\<close>; a missing kind is the default
  kind; a reference with invalid characters or a malformed structure is a parse error.
  The specification does not list the valid characters: here a part is valid when it is
  not empty and made of ASCII letters, digits, \<open>-\<close>, \<open>_\<close> and \<open>.\<close>, which agrees with
  the specification's examples (\<open>team-a\<close> and \<open>group:default/team-a\<close> parse,
  \<open>!!!invalid!!!\<close> does not). The default namespace is \<open>default\<close>.
\<close>

definition DEFAULT_NAMESPACE :: string where
  "DEFAULT_NAMESPACE = ''default''"

definition valid_ref_char :: "char \<Rightarrow> bool" where
  "valid_ref_char c =
     (c \<in> set (''abcdefghijklmnopqrstuvwxyz'' @ ''ABCDEFGHIJKLMNOPQRSTUVWXYZ'' @
                ''0123456789'' @ ''-_.''))"

definition valid_ref_part :: "string \<Rightarrow> bool" where
  "valid_ref_part s = (s \<noteq> [] \<and> list_all valid_ref_char s)"

definition parseEntityRef :: "string \<Rightarrow> string \<Rightarrow> error + CompoundEntityRef" where
  "parseEntityRef ref defaultKind =
     (case String_split (\<lambda>c. c = CHR '':'') ref of
        [rest] \<Rightarrow>
          (case String_split (\<lambda>c. c = CHR ''/'') rest of
             [n] \<Rightarrow>
               if valid_ref_part n
               then Inr (CompoundEntityRef defaultKind DEFAULT_NAMESPACE n)
               else Inl ParseError
           | [ns, n] \<Rightarrow>
               if valid_ref_part ns \<and> valid_ref_part n
               then Inr (CompoundEntityRef defaultKind ns n)
               else Inl ParseError
           | _ \<Rightarrow> Inl ParseError)
      | [k, rest] \<Rightarrow>
          (case String_split (\<lambda>c. c = CHR ''/'') rest of
             [ns, n] \<Rightarrow>
               if valid_ref_part k \<and> valid_ref_part ns \<and> valid_ref_part n
               then Inr (CompoundEntityRef k ns n)
               else Inl ParseError
           | _ \<Rightarrow> Inl ParseError)
      | _ \<Rightarrow> Inl ParseError)"

text \<open>
  Modelled from the spec: the canonical string \<open>kind:namespace/name\<close> of a reference,
  with the three parts in lower case (section 3: equality of canonical strings is
  case-insensitive on kind, namespace and name).
\<close>

definition stringifyEntityRef :: "CompoundEntityRef \<Rightarrow> string" where
  "stringifyEntityRef r =
     asciiLowerCase (ref_kind r) @ '':'' @ asciiLowerCase (ref_namespace r) @ ''/'' @
     asciiLowerCase (ref_name r)"

text \<open>Modelled from the spec: the constant \<open>RELATION_OWNED_BY\<close> of catalog-model.\<close>

definition RELATION_OWNED_BY :: string where
  "RELATION_OWNED_BY = ''ownedBy''"

text \<open>
  The two parts of a string around the first occurrence of a character, when it occurs.
\<close>

definition split_first :: "char \<Rightarrow> string \<Rightarrow> (string \<times> string) option" where
  "split_first c s =
     (if c \<in> set s
      then Some (takeWhile (\<lambda>x. x \<noteq> c) s, tl (dropWhile (\<lambda>x. x \<noteq> c) s))
      else None)"

text \<open>
  Modelled from the spec: the reference that a relation target stands for. filters.ts
  hands every element of the relation lookup to \<open>stringifyEntityRef\<close>, which takes a
  reference triple, and section 4.2 gives the lookup no error case: the target string is
  read part by part, without any check. A target \<open>kind:namespace/name\<close> gives its three
  parts. The specification does not say how a target of another form is read; here a
  missing kind is the empty string and a missing namespace the default one.
\<close>

definition targetEntityRef :: "string \<Rightarrow> CompoundEntityRef" where
  "targetEntityRef t =
     (case split_first (CHR '':'') t of
        None \<Rightarrow>
          (case split_first (CHR ''/'') t of
             None \<Rightarrow> CompoundEntityRef [] DEFAULT_NAMESPACE t
           | Some (ns, n) \<Rightarrow> CompoundEntityRef [] ns n)
      | Some (k, rest) \<Rightarrow>
          (case split_first (CHR ''/'') rest of
             None \<Rightarrow> CompoundEntityRef k DEFAULT_NAMESPACE rest
           | Some (ns, n) \<Rightarrow> CompoundEntityRef k ns n))"

text \<open>
  Modelled from the spec: \<open>getEntityRelations\<close> lives in utils.ts, which is not part of
  the source at hand. Section 4.2: the targets of the relation entries whose type is
  exactly the given one, in their order, each as a reference; an absent relation list is
  an empty one; no error case.
\<close>

definition getEntityRelations :: "Entity \<Rightarrow> string \<Rightarrow> CompoundEntityRef list" where
  "getEntityRelations entity relationType =
     map (\<lambda>r. targetEntityRef (targetRef r))
       (filter (\<lambda>r. type r = relationType)
          (case relations entity of None \<Rightarrow> [] | Some rs \<Rightarrow> rs))"

subsection \<open>EntityTagFilter\<close>

text \<open>\<open>this.values.every(v => (entity.metadata.tags ?? []).includes(v))\<close>\<close>

definition EntityTagFilter_filterEntity :: "string list \<Rightarrow> Entity \<Rightarrow> bool" where
  "EntityTagFilter_filterEntity values entity =
     list_all
       (\<lambda>v. Array_includes (case tags (metadata entity) of None \<Rightarrow> [] | Some ts \<Rightarrow> ts) v)
       values"

subsection \<open>EntityTextFilter\<close>

text \<open>
  An element of the argument of \<open>toUpperArray\<close>: a string, an array of strings or
  \<open>undefined\<close>.
\<close>

datatype upper_item = IStr string | IArr "string list" | IUndefined

text \<open>\<open>Array.prototype.flat\<close> at depth one, for one element.\<close>

fun flat_item :: "upper_item \<Rightarrow> string option list" where
  "flat_item (IStr s) = [Some s]"
| "flat_item (IArr xs) = map Some xs"
| "flat_item IUndefined = [None]"

text \<open>
  \<open>.filter((m): m is string => Boolean(m))\<close>: \<open>undefined\<close> and the empty string are
  falsy and dropped.
\<close>

fun filter_Boolean :: "string option list \<Rightarrow> string list" where
  "filter_Boolean [] = []"
| "filter_Boolean (None # ms) = filter_Boolean ms"
| "filter_Boolean (Some m # ms) = (if m = [] then filter_Boolean ms else m # filter_Boolean ms)"

definition toUpperArray :: "(string \<Rightarrow> string) \<Rightarrow> upper_item list \<Rightarrow> string list" where
  "toUpperArray toLocaleUpperCase value =
     map toLocaleUpperCase (filter_Boolean (concat (map flat_item value)))"

definition item_of_string :: "string option \<Rightarrow> upper_item" where
  "item_of_string m = (case m of None \<Rightarrow> IUndefined | Some s \<Rightarrow> IStr s)"

definition item_of_array :: "string list option \<Rightarrow> upper_item" where
  "item_of_array m = (case m of None \<Rightarrow> IUndefined | Some xs \<Rightarrow> IArr xs)"

text \<open>The loop over the words: the first word that matches nothing ends it with false.\<close>

fun words_loop :: "string list \<Rightarrow> string list \<Rightarrow> string list \<Rightarrow> bool" where
  "words_loop exactMatch partialMatch [] = True"
| "words_loop exactMatch partialMatch (word # words) =
     (if list_all (\<lambda>m. m \<noteq> word) exactMatch \<and>
         list_all (\<lambda>m. \<not> String_includes m word) partialMatch
      then False
      else words_loop exactMatch partialMatch words)"

text \<open>
  The parameters \<open>whitespace\<close> and \<open>toLocaleUpperCase\<close> stand for the character class
  \<open>\s\<close> and for \<open>String.prototype.toLocaleUpperCase('en-US')\<close>.
\<close>

definition EntityTextFilter_filterEntity ::
  "(char \<Rightarrow> bool) \<Rightarrow> (string \<Rightarrow> string) \<Rightarrow> string \<Rightarrow> Entity \<Rightarrow> bool" where
  "EntityTextFilter_filterEntity whitespace toLocaleUpperCase value entity =
     (let words = toUpperArray toLocaleUpperCase (map IStr (String_split whitespace value));
          exactMatch = toUpperArray toLocaleUpperCase [item_of_array (tags (metadata entity))];
          partialMatch = toUpperArray toLocaleUpperCase
            [IStr (name (metadata entity)), item_of_string (title (metadata entity))]
      in words_loop exactMatch partialMatch words)"

subsection \<open>EntityOwnerFilter\<close>

text \<open>
  The constructor: \<open>values.reduce\<close> with a callback whose body is a \<open>try\<close> block. A
  reference that does not parse raises in the block, and the \<open>catch\<close> clause returns the
  accumulator unchanged. \<open>reduce_result\<close> is \<open>reduce\<close> for a callback that may raise:
  an error that leaves the callback leaves \<open>reduce\<close>.
\<close>

fun reduce_result :: "('a \<Rightarrow> 'b \<Rightarrow> error + 'a) \<Rightarrow> 'a \<Rightarrow> 'b list \<Rightarrow> error + 'a" where
  "reduce_result f acc [] = Inr acc"
| "reduce_result f acc (x # xs) =
     (case f acc x of Inl e \<Rightarrow> Inl e | Inr acc' \<Rightarrow> reduce_result f acc' xs)"

definition try_catch :: "error + 'a \<Rightarrow> (error \<Rightarrow> error + 'a) \<Rightarrow> error + 'a" where
  "try_catch body handler = (case body of Inl err \<Rightarrow> handler err | Inr v \<Rightarrow> Inr v)"

definition EntityOwnerFilter_values :: "string list \<Rightarrow> error + string list" where
  "EntityOwnerFilter_values values =
     reduce_result
       (\<lambda>fullRefs ref.
          try_catch
            (case parseEntityRef ref ''Group'' of
               Inl err \<Rightarrow> Inl err
             | Inr r \<Rightarrow> Inr (fullRefs @ [stringifyEntityRef r]))
            (\<lambda>err. Inr fullRefs))
       [] values"

definition EntityOwnerFilter_filterEntity :: "string list \<Rightarrow> Entity \<Rightarrow> bool" where
  "EntityOwnerFilter_filterEntity values entity =
     list_ex
       (\<lambda>v. list_ex (\<lambda>o'. stringifyEntityRef o' = v)
               (getEntityRelations entity RELATION_OWNED_BY))
       values"

subsection \<open>EntityLifecycleFilter, EntityNamespaceFilter\<close>

text \<open>\<open>this.values.some(v => entity.spec?.lifecycle === v)\<close>\<close>

definition EntityLifecycleFilter_filterEntity :: "string list \<Rightarrow> Entity \<Rightarrow> bool" where
  "EntityLifecycleFilter_filterEntity values entity =
     list_ex
       (\<lambda>v. (case spec entity of None \<Rightarrow> None | Some s \<Rightarrow> lifecycle s) = Some v)
       values"

text \<open>\<open>this.values.some(v => entity.metadata.namespace === v)\<close>\<close>

definition EntityNamespaceFilter_filterEntity :: "string list \<Rightarrow> Entity \<Rightarrow> bool" where
  "EntityNamespaceFilter_filterEntity values entity =
     list_ex (\<lambda>v. namespace (metadata entity) = Some v) values"

subsection \<open>UserListFilter\<close>

definition UserListFilter_filterEntity ::
  "string \<Rightarrow> (Entity \<Rightarrow> bool) \<Rightarrow> (Entity \<Rightarrow> bool) \<Rightarrow> Entity \<Rightarrow> bool" where
  "UserListFilter_filterEntity value isOwnedEntity isStarredEntity entity =
     (if value = ''owned'' then isOwnedEntity entity
      else if value = ''starred'' then isStarredEntity entity
      else True)"

subsection \<open>EntityOrphanFilter\<close>

definition EntityOrphanFilter_filterEntity :: "bool \<Rightarrow> Entity \<Rightarrow> bool" where
  "EntityOrphanFilter_filterEntity value entity =
     (let orphan =
            (case annotations (metadata entity) of
               None \<Rightarrow> None
             | Some a \<Rightarrow> map_of a ''backstage.io/orphan'')
      in orphan \<noteq> None \<and> Some (Boolean_toString value) = orphan)"

subsection \<open>EntityErrorFilter\<close>

text \<open>
  \<open>entity?.status?.items?.length\<close>: \<open>undefined\<close> as soon as one link of the chain is.
\<close>

definition status_items_length :: "Entity \<Rightarrow> nat option" where
  "status_items_length entity =
     (case status entity of
        None \<Rightarrow> None
      | Some s \<Rightarrow> (case items s of None \<Rightarrow> None | Some xs \<Rightarrow> Some (length xs)))"

text \<open>
  \<open>error\<close> is a boolean, so the test \<open>error !== undefined\<close> of the source is always
  true; it is the first conjunct.
\<close>

definition EntityErrorFilter_filterEntity :: "bool \<Rightarrow> Entity \<Rightarrow> bool" where
  "EntityErrorFilter_filterEntity value entity =
     (let error = number_gt (status_items_length entity) 0
      in True \<and> value = error)"

subsection \<open>The filter classes and their three capabilities\<close>

text \<open>The values of \<open>Record<string, string | string[]>\<close>.\<close>

datatype filter_value = One string | Many "string list"

datatype EntityFilter =
    EntityKindFilter string
  | EntityTypeFilter "string + string list"
  | EntityTagFilter "string list"
  | EntityTextFilter string
  | EntityOwnerFilter "string list"
  | EntityLifecycleFilter "string list"
  | EntityNamespaceFilter "string list"
  | UserListFilter string "Entity \<Rightarrow> bool" "Entity \<Rightarrow> bool"
  | EntityOrphanFilter bool
  | EntityErrorFilter bool

text \<open>The constructor of \<open>EntityOwnerFilter\<close>; the other classes store their argument.\<close>

definition new_EntityOwnerFilter :: "string list \<Rightarrow> error + EntityFilter" where
  "new_EntityOwnerFilter values =
     (case EntityOwnerFilter_values values of
        Inl e \<Rightarrow> Inl e
      | Inr vs \<Rightarrow> Inr (EntityOwnerFilter vs))"

definition getTypes :: "string + string list \<Rightarrow> string list" where
  "getTypes value = (case value of Inl s \<Rightarrow> [s] | Inr xs \<Rightarrow> xs)"

text \<open>
  A class that does not declare a method has no such property: the result is \<open>None\<close>.
\<close>

fun filterEntity ::
  "(char \<Rightarrow> bool) \<Rightarrow> (string \<Rightarrow> string) \<Rightarrow> EntityFilter \<Rightarrow> Entity \<Rightarrow> bool option" where
  "filterEntity ws up (EntityKindFilter value) entity = None"
| "filterEntity ws up (EntityTypeFilter value) entity = None"
| "filterEntity ws up (EntityTagFilter values) entity =
     Some (EntityTagFilter_filterEntity values entity)"
| "filterEntity ws up (EntityTextFilter value) entity =
     Some (EntityTextFilter_filterEntity ws up value entity)"
| "filterEntity ws up (EntityOwnerFilter values) entity =
     Some (EntityOwnerFilter_filterEntity values entity)"
| "filterEntity ws up (EntityLifecycleFilter values) entity =
     Some (EntityLifecycleFilter_filterEntity values entity)"
| "filterEntity ws up (EntityNamespaceFilter values) entity =
     Some (EntityNamespaceFilter_filterEntity values entity)"
| "filterEntity ws up (UserListFilter value isOwnedEntity isStarredEntity) entity =
     Some (UserListFilter_filterEntity value isOwnedEntity isStarredEntity entity)"
| "filterEntity ws up (EntityOrphanFilter value) entity =
     Some (EntityOrphanFilter_filterEntity value entity)"
| "filterEntity ws up (EntityErrorFilter value) entity =
     Some (EntityErrorFilter_filterEntity value entity)"

fun getCatalogFilters :: "EntityFilter \<Rightarrow> (string \<times> filter_value) list option" where
  "getCatalogFilters (EntityKindFilter value) = Some [(''kind'', One value)]"
| "getCatalogFilters (EntityTypeFilter value) = Some [(''spec.type'', Many (getTypes value))]"
| "getCatalogFilters (EntityTagFilter values) = Some [(''metadata.tags'', Many values)]"
| "getCatalogFilters (EntityTextFilter value) = None"
| "getCatalogFilters (EntityOwnerFilter values) = Some [(''relations.ownedBy'', Many values)]"
| "getCatalogFilters (EntityLifecycleFilter values) = Some [(''spec.lifecycle'', Many values)]"
| "getCatalogFilters (EntityNamespaceFilter values) = Some [(''spec.lifecycle'', Many values)]"
| "getCatalogFilters (UserListFilter value isOwnedEntity isStarredEntity) = None"
| "getCatalogFilters (EntityOrphanFilter value) =
     Some [(''metadata.annotations.backstage.io/orphan'', One (Boolean_toString value))]"
| "getCatalogFilters (EntityErrorFilter value) = None"

fun toQueryValue :: "EntityFilter \<Rightarrow> filter_value option" where
  "toQueryValue (EntityKindFilter value) = Some (One value)"
| "toQueryValue (EntityTypeFilter value) = Some (Many (getTypes value))"
| "toQueryValue (EntityTagFilter values) = Some (Many values)"
| "toQueryValue (EntityTextFilter value) = None"
| "toQueryValue (EntityOwnerFilter values) = Some (Many values)"
| "toQueryValue (EntityLifecycleFilter values) = Some (Many values)"
| "toQueryValue (EntityNamespaceFilter values) = Some (Many values)"
| "toQueryValue (UserListFilter value isOwnedEntity isStarredEntity) = Some (One value)"
| "toQueryValue (EntityOrphanFilter value) = None"
| "toQueryValue (EntityErrorFilter value) = None"

subsection \<open>Evaluation on JavaScript values, where an access can raise\<close>

text \<open>
  The functions above read an entity through its type, where an optional field is an
  \<open>option\<close>. The functions of this subsection read it as the program does at run
  time: an entity is a value, a field that is absent reads as \<open>undefined\<close>, and a
  member access or a method call on \<open>undefined\<close> raises \<open>TypeError\<close>. Each
  \<open>filterEntity\<close> is translated a second time, operator by operator (\<open>.\<close>,
  \<open>?.\<close>, \<open>??\<close>, \<open>===\<close>, \<open>>\<close> and the method calls). The configuration of a filter
  keeps its type.
\<close>

datatype js_value =
    JUndefined
  | JBool bool
  | JNum nat
  | JStr string
  | JArr "js_value list"
  | JObj "(string \<times> js_value) list"

text \<open>
  Sequencing: an error raised by the first computation leaves the whole expression.
\<close>

definition bind_result :: "error + 'a \<Rightarrow> ('a \<Rightarrow> error + 'b) \<Rightarrow> error + 'b" where
  "bind_result m f = (case m of Inl e \<Rightarrow> Inl e | Inr v \<Rightarrow> f v)"

text \<open>
  \<open>v.p\<close>: raises on \<open>undefined\<close>; reads an own property of an object, \<open>undefined\<close>
  when the object has none of that name; \<open>length\<close> of an array or a string. Methods
  are not read as properties: each method call has its own function below.
\<close>

fun js_member :: "js_value \<Rightarrow> string \<Rightarrow> error + js_value" where
  "js_member JUndefined p = Inl TypeError"
| "js_member (JObj props) p = Inr (case map_of props p of None \<Rightarrow> JUndefined | Some v \<Rightarrow> v)"
| "js_member (JArr xs) p = Inr (if p = ''length'' then JNum (length xs) else JUndefined)"
| "js_member (JStr s) p = Inr (if p = ''length'' then JNum (length s) else JUndefined)"
| "js_member (JBool b) p = Inr JUndefined"
| "js_member (JNum n) p = Inr JUndefined"

text \<open>
  \<open>v?.p\<close>: \<open>undefined\<close> when \<open>v\<close> is \<open>undefined\<close>, else \<open>v.p\<close>.
\<close>

fun js_optional_member :: "js_value \<Rightarrow> string \<Rightarrow> error + js_value" where
  "js_optional_member JUndefined p = Inr JUndefined"
| "js_optional_member v p = js_member v p"

text \<open>\<open>v ?? d\<close>.\<close>

fun js_nullish :: "js_value \<Rightarrow> js_value \<Rightarrow> js_value" where
  "js_nullish JUndefined d = d"
| "js_nullish v d = v"

text \<open>
  \<open>a === b\<close> where one operand is a string, a boolean or \<open>undefined\<close>, as in every
  comparison of filters.ts: the operands are the same primitive value.
\<close>

definition js_strict_equals :: "js_value \<Rightarrow> js_value \<Rightarrow> bool" where
  "js_strict_equals a b = (a = b)"

text \<open>\<open>Boolean(v)\<close>.\<close>

fun js_Boolean :: "js_value \<Rightarrow> bool" where
  "js_Boolean JUndefined = False"
| "js_Boolean (JBool b) = b"
| "js_Boolean (JNum n) = (n \<noteq> 0)"
| "js_Boolean (JStr s) = (s \<noteq> [])"
| "js_Boolean (JArr xs) = True"
| "js_Boolean (JObj props) = True"

text \<open>\<open>Array.prototype.flat\<close> at depth one, for one element.\<close>

fun js_flat_element :: "js_value \<Rightarrow> js_value list" where
  "js_flat_element (JArr xs) = xs"
| "js_flat_element v = [v]"

text \<open>
  \<open>every\<close>, \<open>some\<close>, \<open>map\<close> and \<open>filter\<close> of an array with a callback that may raise.
  \<open>every\<close> stops at the first false and \<open>some\<close> at the first true.
\<close>

fun every_result :: "('a \<Rightarrow> error + bool) \<Rightarrow> 'a list \<Rightarrow> error + bool" where
  "every_result f [] = Inr True"
| "every_result f (x # xs) =
     (case f x of Inl e \<Rightarrow> Inl e | Inr b \<Rightarrow> if b then every_result f xs else Inr False)"

fun some_result :: "('a \<Rightarrow> error + bool) \<Rightarrow> 'a list \<Rightarrow> error + bool" where
  "some_result f [] = Inr False"
| "some_result f (x # xs) =
     (case f x of Inl e \<Rightarrow> Inl e | Inr b \<Rightarrow> if b then Inr True else some_result f xs)"

fun map_result :: "('a \<Rightarrow> error + 'b) \<Rightarrow> 'a list \<Rightarrow> error + 'b list" where
  "map_result f [] = Inr []"
| "map_result f (x # xs) =
     (case f x of
        Inl e \<Rightarrow> Inl e
      | Inr y \<Rightarrow> (case map_result f xs of Inl e \<Rightarrow> Inl e | Inr ys \<Rightarrow> Inr (y # ys)))"

text \<open>The receiver of an array method: anything but an array has no such method.\<close>

fun js_array :: "js_value \<Rightarrow> error + js_value list" where
  "js_array (JArr xs) = Inr xs"
| "js_array v = Inl TypeError"

text \<open>
  \<open>m.includes(v)\<close>: membership for an array, containment for a string and a string
  argument; \<open>TypeError\<close> for a receiver without the method. A string receiver converts
  another argument to a string, which is left out: \<open>NotModelled\<close>.
\<close>

fun js_includes :: "js_value \<Rightarrow> js_value \<Rightarrow> error + bool" where
  "js_includes (JArr xs) v = Inr (v \<in> set xs)"
| "js_includes (JStr s) (JStr word) = Inr (String_includes s word)"
| "js_includes (JStr s) v = Inl NotModelled"
| "js_includes m v = Inl TypeError"

text \<open>
  \<open>m.toLocaleUpperCase('en-US')\<close> and \<open>m.toLocaleLowerCase('en-US')\<close>: only a string
  has the method.
\<close>

fun js_toLocaleUpperCase :: "(string \<Rightarrow> string) \<Rightarrow> js_value \<Rightarrow> error + js_value" where
  "js_toLocaleUpperCase toLocaleUpperCase (JStr s) = Inr (JStr (toLocaleUpperCase s))"
| "js_toLocaleUpperCase toLocaleUpperCase m = Inl TypeError"

fun js_toLocaleLowerCase :: "js_value \<Rightarrow> error + string" where
  "js_toLocaleLowerCase (JStr s) = Inr (asciiLowerCase s)"
| "js_toLocaleLowerCase m = Inl TypeError"

text \<open>
  \<open>v > k\<close> for a number \<open>k\<close>: \<open>undefined\<close> converts to NaN and compares false, a
  boolean converts to 0 or 1; the conversions of strings, arrays and objects are left
  out: \<open>NotModelled\<close>.
\<close>

fun js_greater :: "js_value \<Rightarrow> nat \<Rightarrow> error + bool" where
  "js_greater (JNum n) k = Inr (k < n)"
| "js_greater JUndefined k = Inr False"
| "js_greater (JBool b) k = Inr (k < (if b then 1 else 0))"
| "js_greater v k = Inl NotModelled"

text \<open>\<open>this.values.every(v => (entity.metadata.tags ?? []).includes(v))\<close>\<close>

definition js_EntityTagFilter_filterEntity :: "string list \<Rightarrow> js_value \<Rightarrow> error + bool" where
  "js_EntityTagFilter_filterEntity values entity =
     every_result
       (\<lambda>v. bind_result (js_member entity ''metadata'') (\<lambda>md.
             bind_result (js_member md ''tags'') (\<lambda>ts.
               js_includes (js_nullish ts (JArr [])) (JStr v))))
       values"

text \<open>
  \<open>value.flat().filter(m => Boolean(m)).map(m => m.toLocaleUpperCase('en-US'))\<close>
\<close>

definition js_toUpperArray :: "(string \<Rightarrow> string) \<Rightarrow> js_value list \<Rightarrow> error + js_value list" where
  "js_toUpperArray toLocaleUpperCase value =
     map_result (js_toLocaleUpperCase toLocaleUpperCase)
       (filter js_Boolean (concat (map js_flat_element value)))"

text \<open>
  The loop of the text filter; \<open>&&\<close> evaluates its second operand only when the first
  is true.
\<close>

fun js_words_loop :: "js_value list \<Rightarrow> js_value list \<Rightarrow> js_value list \<Rightarrow> error + bool" where
  "js_words_loop exactMatch partialMatch [] = Inr True"
| "js_words_loop exactMatch partialMatch (word # words) =
     (case every_result (\<lambda>m. Inr (\<not> js_strict_equals m word)) exactMatch of
        Inl e \<Rightarrow> Inl e
      | Inr no_exact \<Rightarrow>
          (case (if no_exact
                 then every_result
                        (\<lambda>m. bind_result (js_includes m word) (\<lambda>b. Inr (\<not> b))) partialMatch
                 else Inr False) of
             Inl e \<Rightarrow> Inl e
           | Inr no_match \<Rightarrow>
               if no_match then Inr False
               else js_words_loop exactMatch partialMatch words))"

definition js_EntityTextFilter_filterEntity ::
  "(char \<Rightarrow> bool) \<Rightarrow> (string \<Rightarrow> string) \<Rightarrow> string \<Rightarrow> js_value \<Rightarrow> error + bool" where
  "js_EntityTextFilter_filterEntity whitespace toLocaleUpperCase value entity =
     bind_result
       (js_toUpperArray toLocaleUpperCase (map JStr (String_split whitespace value)))
       (\<lambda>words.
     bind_result (js_member entity ''metadata'') (\<lambda>md.
     bind_result (js_member md ''tags'') (\<lambda>ts.
     bind_result (js_toUpperArray toLocaleUpperCase [ts]) (\<lambda>exactMatch.
     bind_result (js_member entity ''metadata'') (\<lambda>md1.
     bind_result (js_member md1 ''name'') (\<lambda>n.
     bind_result (js_member entity ''metadata'') (\<lambda>md2.
     bind_result (js_member md2 ''title'') (\<lambda>t.
     bind_result (js_toUpperArray toLocaleUpperCase [n, t]) (\<lambda>partialMatch.
       js_words_loop exactMatch partialMatch words)))))))))"

text \<open>
  Modelled from the spec: \<open>stringifyEntityRef\<close> and \<open>getEntityRelations\<close> at run time.
  The first reads the three parts of a reference and joins their lower-case forms; the
  second is \<open>(entity.relations ?? []).filter(r => r.type === relationType)\<close> followed
  by the reading of each \<open>r.targetRef\<close> as a reference, which uses string operations:
  a target that is not a string has none of them.
\<close>

fun js_targetEntityRef :: "js_value \<Rightarrow> error + js_value" where
  "js_targetEntityRef (JStr t) =
     Inr (JObj [(''kind'', JStr (ref_kind (targetEntityRef t))),
                (''namespace'', JStr (ref_namespace (targetEntityRef t))),
                (''name'', JStr (ref_name (targetEntityRef t)))])"
| "js_targetEntityRef v = Inl TypeError"

definition js_stringifyEntityRef :: "js_value \<Rightarrow> error + string" where
  "js_stringifyEntityRef r =
     bind_result (js_member r ''kind'') (\<lambda>k.
     bind_result (js_toLocaleLowerCase k) (\<lambda>kind.
     bind_result (js_member r ''namespace'') (\<lambda>ns.
     bind_result (js_toLocaleLowerCase ns) (\<lambda>namespace.
     bind_result (js_member r ''name'') (\<lambda>n.
     bind_result (js_toLocaleLowerCase n) (\<lambda>name.
       Inr (kind @ '':'' @ namespace @ ''/'' @ name)))))))"

fun filter_result :: "('a \<Rightarrow> error + bool) \<Rightarrow> 'a list \<Rightarrow> error + 'a list" where
  "filter_result f [] = Inr []"
| "filter_result f (x # xs) =
     (case f x of
        Inl e \<Rightarrow> Inl e
      | Inr b \<Rightarrow>
          (case filter_result f xs of
             Inl e \<Rightarrow> Inl e
           | Inr ys \<Rightarrow> Inr (if b then x # ys else ys)))"

definition js_getEntityRelations :: "js_value \<Rightarrow> string \<Rightarrow> error + js_value list" where
  "js_getEntityRelations entity relationType =
     bind_result (js_member entity ''relations'') (\<lambda>rs.
     bind_result (js_array (js_nullish rs (JArr []))) (\<lambda>rels.
     bind_result
       (filter_result
          (\<lambda>r. bind_result (js_member r ''type'') (\<lambda>t.
                  Inr (js_strict_equals t (JStr relationType))))
          rels)
       (\<lambda>matching.
          map_result (\<lambda>r. bind_result (js_member r ''targetRef'') js_targetEntityRef)
            matching)))"

text \<open>
  \<open>this.values.some(v => getEntityRelations(entity, RELATION_OWNED_BY).some(o =>
  stringifyEntityRef(o) === v))\<close>
\<close>

definition js_EntityOwnerFilter_filterEntity :: "string list \<Rightarrow> js_value \<Rightarrow> error + bool" where
  "js_EntityOwnerFilter_filterEntity values entity =
     some_result
       (\<lambda>v. bind_result (js_getEntityRelations entity RELATION_OWNED_BY) (\<lambda>owners.
               some_result
                 (\<lambda>o'. bind_result (js_stringifyEntityRef o') (\<lambda>s. Inr (s = v)))
                 owners))
       values"

text \<open>\<open>this.values.some(v => entity.spec?.lifecycle === v)\<close>\<close>

definition js_EntityLifecycleFilter_filterEntity :: "string list \<Rightarrow> js_value \<Rightarrow> error + bool" where
  "js_EntityLifecycleFilter_filterEntity values entity =
     some_result
       (\<lambda>v. bind_result (js_member entity ''spec'') (\<lambda>s.
             bind_result (js_optional_member s ''lifecycle'') (\<lambda>l.
               Inr (js_strict_equals l (JStr v)))))
       values"

text \<open>\<open>this.values.some(v => entity.metadata.namespace === v)\<close>\<close>

definition js_EntityNamespaceFilter_filterEntity :: "string list \<Rightarrow> js_value \<Rightarrow> error + bool" where
  "js_EntityNamespaceFilter_filterEntity values entity =
     some_result
       (\<lambda>v. bind_result (js_member entity ''metadata'') (\<lambda>md.
             bind_result (js_member md ''namespace'') (\<lambda>ns.
               Inr (js_strict_equals ns (JStr v)))))
       values"

text \<open>
  The two injected predicates are pure functions from entities to booleans
  (section 6 of the specification).
\<close>

definition js_UserListFilter_filterEntity ::
  "string \<Rightarrow> (js_value \<Rightarrow> bool) \<Rightarrow> (js_value \<Rightarrow> bool) \<Rightarrow> js_value \<Rightarrow> error + bool" where
  "js_UserListFilter_filterEntity value isOwnedEntity isStarredEntity entity =
     (if value = ''owned'' then Inr (isOwnedEntity entity)
      else if value = ''starred'' then Inr (isStarredEntity entity)
      else Inr True)"

text \<open>
  \<open>orphan = entity.metadata.annotations?.['backstage.io/orphan']\<close>, then
  \<open>orphan !== undefined && this.value.toString() === orphan\<close>.
\<close>

definition js_EntityOrphanFilter_filterEntity :: "bool \<Rightarrow> js_value \<Rightarrow> error + bool" where
  "js_EntityOrphanFilter_filterEntity value entity =
     bind_result (js_member entity ''metadata'') (\<lambda>md.
     bind_result (js_member md ''annotations'') (\<lambda>a.
     bind_result (js_optional_member a ''backstage.io/orphan'') (\<lambda>orphan.
       Inr (\<not> js_strict_equals orphan JUndefined \<and>
            js_strict_equals (JStr (Boolean_toString value)) orphan))))"

text \<open>
  \<open>error = entity?.status?.items?.length > 0\<close>, then
  \<open>error !== undefined && this.value === error\<close>.
\<close>

definition js_EntityErrorFilter_filterEntity :: "bool \<Rightarrow> js_value \<Rightarrow> error + bool" where
  "js_EntityErrorFilter_filterEntity value entity =
     bind_result (js_optional_member entity ''status'') (\<lambda>st.
     bind_result (js_optional_member st ''items'') (\<lambda>its.
     bind_result (js_optional_member its ''length'') (\<lambda>n.
     bind_result (js_greater n 0) (\<lambda>error.
       Inr (\<not> js_strict_equals (JBool error) JUndefined \<and>
            js_strict_equals (JBool value) (JBool error))))))"

subsection \<open>Entities as JavaScript values\<close>

text \<open>
  The value of a well-typed entity: an object with the required fields, and with each
  optional field only when it is present.
\<close>

definition js_field :: "string \<Rightarrow> 'a option \<Rightarrow> ('a \<Rightarrow> js_value) \<Rightarrow> (string \<times> js_value) list" where
  "js_field key v enc = (case v of None \<Rightarrow> [] | Some x \<Rightarrow> [(key, enc x)])"

definition js_of_ref :: "CompoundEntityRef \<Rightarrow> js_value" where
  "js_of_ref r =
     JObj [(''kind'', JStr (ref_kind r)), (''namespace'', JStr (ref_namespace r)),
           (''name'', JStr (ref_name r))]"

definition js_of_relation :: "EntityRelation \<Rightarrow> js_value" where
  "js_of_relation r = JObj [(''type'', JStr (type r)), (''targetRef'', JStr (targetRef r))]"

definition js_of_meta :: "EntityMeta \<Rightarrow> js_value" where
  "js_of_meta m =
     JObj ([(''name'', JStr (name m))] @
           js_field ''namespace'' (namespace m) JStr @
           js_field ''title'' (title m) JStr @
           js_field ''tags'' (tags m) (\<lambda>ts. JArr (map JStr ts)) @
           js_field ''annotations'' (annotations m)
             (\<lambda>a. JObj (map (\<lambda>(k, v). (k, JStr v)) a)))"

definition js_of_spec :: "EntitySpec \<Rightarrow> js_value" where
  "js_of_spec s =
     JObj (js_field ''type'' (spec_type s) JStr @ js_field ''lifecycle'' (lifecycle s) JStr)"

definition js_of_status_item :: "EntityStatusItem \<Rightarrow> js_value" where
  "js_of_status_item i = JObj [(''message'', JStr (message i))]"

definition js_of_status :: "EntityStatus \<Rightarrow> js_value" where
  "js_of_status st =
     JObj (js_field ''items'' (items st) (\<lambda>xs. JArr (map js_of_status_item xs)))"

definition js_of_entity :: "Entity \<Rightarrow> js_value" where
  "js_of_entity e =
     JObj ([(''metadata'', js_of_meta (metadata e))] @
           js_field ''spec'' (spec e) js_of_spec @
           js_field ''relations'' (relations e) (\<lambda>rs. JArr (map js_of_relation rs)) @
           js_field ''status'' (status e) js_of_status)"

text \<open>The arguments of \<open>toUpperArray\<close> as values.\<close>

definition js_of_upper_item :: "upper_item \<Rightarrow> js_value" where
  "js_of_upper_item i =
     (case i of IStr s \<Rightarrow> JStr s | IArr xs \<Rightarrow> JArr (map JStr xs) | IUndefined \<Rightarrow> JUndefined)"

definition js_of_string_option :: "string option \<Rightarrow> js_value" where
  "js_of_string_option m = (case m of None \<Rightarrow> JUndefined | Some s \<Rightarrow> JStr s)"

subsection \<open>Notions used to state the properties\<close>

text \<open>
  The tokens of a text: the pieces of the split that are not empty, which are the
  maximal runs of characters that are not whitespace.
\<close>

definition text_tokens :: "(char \<Rightarrow> bool) \<Rightarrow> string \<Rightarrow> string list" where
  "text_tokens whitespace value = filter (\<lambda>w. w \<noteq> []) (String_split whitespace value)"

text \<open>
  A token matches an entity when its upper-case form is that of one of the entity's
  tags, or occurs as a contiguous part of the upper-case form of the entity's name or
  of its title.
\<close>

definition token_matches :: "(string \<Rightarrow> string) \<Rightarrow> Entity \<Rightarrow> string \<Rightarrow> bool" where
  "token_matches up entity tok =
     (list_ex (\<lambda>tag. up tag = up tok)
        (case tags (metadata entity) of None \<Rightarrow> [] | Some ts \<Rightarrow> ts) \<or>
      sublist (up tok) (up (name (metadata entity))) \<or>
      (case title (metadata entity) of None \<Rightarrow> False | Some t \<Rightarrow> sublist (up tok) (up t)))"

text \<open>Entities for concrete inputs: only the required field is present.\<close>

definition meta_named :: "string \<Rightarrow> EntityMeta" where
  "meta_named n = \<lparr>name = n, namespace = None, title = None, tags = None, annotations = None\<rparr>"

definition entity_of_meta :: "EntityMeta \<Rightarrow> Entity" where
  "entity_of_meta m = \<lparr>metadata = m, spec = None, relations = None, status = None\<rparr>"

text \<open>
  The normalized forms of the references that parse, in their order, and the test that
  a reference parses (with the default kind of the owner filter).
\<close>

definition normalized_parseable :: "string list \<Rightarrow> string list" where
  "normalized_parseable refs =
     concat (map (\<lambda>ref. case parseEntityRef ref ''Group'' of
                           Inl err \<Rightarrow> []
                         | Inr r \<Rightarrow> [stringifyEntityRef r]) refs)"

definition parseable :: "string \<Rightarrow> bool" where
  "parseable ref = (case parseEntityRef ref ''Group'' of Inl err \<Rightarrow> False | Inr r \<Rightarrow> True)"

text \<open>The entity has a status with a list of items that is not empty.\<close>

definition has_status_items :: "Entity \<Rightarrow> bool" where
  "has_status_items entity =
     (case status entity of
        None \<Rightarrow> False
      | Some s \<Rightarrow> (case items s of None \<Rightarrow> False | Some xs \<Rightarrow> xs \<noteq> []))"

section \<open>Theorems\<close>

subsection \<open>Splitting and upper-casing\<close>

lemma String_split_not_Nil: "String_split sep s \<noteq> []"
  by (induction s) (auto split: list.splits)

lemma String_split_concat: "concat (String_split sep s) = filter (\<lambda>c. \<not> sep c) s"
  by (induction s) (auto split: list.splits)

lemma String_split_length: "length (String_split sep s) = Suc (length (filter sep s))"
  by (induction s) (auto split: list.splits)

lemma String_split_pieces: "w \<in> set (String_split sep s) \<Longrightarrow> c \<in> set w \<Longrightarrow> \<not> sep c"
proof -
  have "set (concat (String_split sep s)) = {c \<in> set s. \<not> sep c}"
    by (simp add: String_split_concat)
  then show "w \<in> set (String_split sep s) \<Longrightarrow> c \<in> set w \<Longrightarrow> \<not> sep c"
    by auto
qed

lemma String_split_no_sep: "\<forall>c\<in>set s. \<not> sep c \<Longrightarrow> String_split sep s = [s]"
  by (induction s) auto

lemma String_split_all_sep: "\<forall>c\<in>set s. sep c \<Longrightarrow> String_split sep s = replicate (Suc (length s)) []"
  by (induction s) auto

lemma filter_Boolean_Some: "filter_Boolean (map Some xs) = filter (\<lambda>m. m \<noteq> []) xs"
  by (induction xs) auto

lemma toUpperArray_words:
  "toUpperArray up (map IStr (String_split ws value)) = map up (text_tokens ws value)"
proof -
  have "concat (map flat_item (map IStr xs)) = map Some xs" for xs
    by (induction xs) auto
  then show ?thesis
    by (simp add: toUpperArray_def text_tokens_def filter_Boolean_Some)
qed

lemma toUpperArray_tags:
  "toUpperArray up [item_of_array ts] =
     map up (filter (\<lambda>m. m \<noteq> []) (case ts of None \<Rightarrow> [] | Some xs \<Rightarrow> xs))"
  by (cases ts) (simp_all add: toUpperArray_def item_of_array_def filter_Boolean_Some)

lemma toUpperArray_name_title:
  "toUpperArray up [IStr n, item_of_string t] =
     map up (filter (\<lambda>m. m \<noteq> []) (n # (case t of None \<Rightarrow> [] | Some x \<Rightarrow> [x])))"
  by (cases t) (simp_all add: toUpperArray_def item_of_string_def)

lemma words_loop_iff:
  "words_loop exactMatch partialMatch words =
     (\<forall>word\<in>set words. word \<in> set exactMatch \<or> (\<exists>m\<in>set partialMatch. sublist word m))"
  by (induction words) (auto simp: list_all_iff String_includes_def)

lemma upper_exact_iff:
  assumes up: "\<forall>s. (up s = []) = (s = [])" and tok: "tok \<noteq> []"
  shows "(up tok \<in> set (toUpperArray up [item_of_array ts])) =
      (\<exists>tag\<in>set (case ts of None \<Rightarrow> [] | Some xs \<Rightarrow> xs). up tag = up tok)"
proof -
  have upE: "(up s = []) = (s = [])" for s using up by blast
  have utok: "up tok \<noteq> []" using upE [of tok] tok by simp
  have ne: "tag \<noteq> []" if "up tag = up tok" for tag
    using that utok upE [of tag] by auto
  show ?thesis
  proof (cases ts)
    case None
    then show ?thesis by (simp add: toUpperArray_tags)
  next
    case (Some xs)
    have "(up tok \<in> up ` {m \<in> set xs. m \<noteq> []}) = (\<exists>tag\<in>set xs. up tag = up tok)"
    proof
      assume "up tok \<in> up ` {m \<in> set xs. m \<noteq> []}"
      then obtain m where "m \<in> set xs" "up tok = up m" by blast
      then show "\<exists>tag\<in>set xs. up tag = up tok" by (intro bexI [of _ m]) simp_all
    next
      assume "\<exists>tag\<in>set xs. up tag = up tok"
      then obtain tag where t: "tag \<in> set xs" "up tag = up tok" by blast
      then have "tag \<in> {m \<in> set xs. m \<noteq> []}" using ne by simp
      then show "up tok \<in> up ` {m \<in> set xs. m \<noteq> []}" using t(2) by (metis imageI)
    qed
    then show ?thesis using Some by (simp add: toUpperArray_tags)
  qed
qed

lemma upper_partial_iff:
  assumes up: "\<forall>s. (up s = []) = (s = [])" and tok: "tok \<noteq> []"
  shows "(\<exists>m\<in>set (toUpperArray up [IStr n, item_of_string t]). sublist (up tok) m) =
      (sublist (up tok) (up n) \<or> (\<exists>x. t = Some x \<and> sublist (up tok) (up x)))"
proof -
  have upE: "(up s = []) = (s = [])" for s using up by blast
  have utok: "up tok \<noteq> []" using upE [of tok] tok by simp
  have keep: "m \<noteq> []" if "sublist (up tok) (up m)" for m
  proof
    assume "m = []"
    then have "up m = []" using upE [of m] by simp
    then show False using that utok by simp
  qed
  have one: "(\<exists>m\<in>set (filter (\<lambda>m. m \<noteq> []) ms). sublist (up tok) (up m)) =
       (\<exists>m\<in>set ms. sublist (up tok) (up m))" for ms
    using keep by auto
  show ?thesis
  proof (cases t)
    case None
    have "(\<exists>m\<in>set (map up (filter (\<lambda>m. m \<noteq> []) [n])). sublist (up tok) m) =
        sublist (up tok) (up n)"
      unfolding set_map bex_simps one by simp
    then show ?thesis using None by (simp only: toUpperArray_name_title option.case) simp
  next
    case (Some x)
    have "(\<exists>m\<in>set (map up (filter (\<lambda>m. m \<noteq> []) [n, x])). sublist (up tok) m) =
        (sublist (up tok) (up n) \<or> sublist (up tok) (up x))"
      unfolding set_map bex_simps one by simp
    then show ?thesis using Some by (simp only: toUpperArray_name_title option.case) simp
  qed
qed

lemma asciiUpperCase_Nil_iff: "\<forall>s. (asciiUpperCase s = []) = (s = [])"
  by (simp add: asciiUpperCase_def)

lemma tokens_web: "text_tokens asciiWhitespace ''web'' = [''web'']"
  by (simp add: text_tokens_def asciiWhitespace_def)

lemma up_web: "asciiUpperCase ''web'' = ''WEB''"
  by (simp add: asciiUpperCase_def toUpperChar_def)

lemma up_webhook: "asciiUpperCase ''webhook'' = ''WEBHOOK''"
  by (simp add: asciiUpperCase_def toUpperChar_def)

lemma up_svc: "asciiUpperCase ''svc'' = ''SVC''"
  by (simp add: asciiUpperCase_def toUpperChar_def)

lemma up_mywebsvc: "asciiUpperCase ''My-Web-Svc'' = ''MY-WEB-SVC''"
  by (simp add: asciiUpperCase_def toUpperChar_def)

subsection \<open>Text filter\<close>

lemma EntityTextFilter_filterEntity_tokens:
  assumes up: "\<forall>s. (up s = []) = (s = [])"
  shows "EntityTextFilter_filterEntity ws up value entity =
     (\<forall>tok\<in>set (text_tokens ws value).
        (\<exists>tag\<in>set (case tags (metadata entity) of None \<Rightarrow> [] | Some ts \<Rightarrow> ts). up tag = up tok)
      \<or> sublist (up tok) (up (name (metadata entity)))
      \<or> (\<exists>t. title (metadata entity) = Some t \<and> sublist (up tok) (up t)))"
proof -
  have tok: "tok \<noteq> []" if "tok \<in> set (text_tokens ws value)" for tok
    using that by (simp add: text_tokens_def)
  have "EntityTextFilter_filterEntity ws up value entity =
     (\<forall>tok\<in>set (text_tokens ws value).
        up tok \<in> set (toUpperArray up [item_of_array (tags (metadata entity))]) \<or>
        (\<exists>m\<in>set (toUpperArray up [IStr (name (metadata entity)),
                      item_of_string (title (metadata entity))]). sublist (up tok) m))"
    by (simp add: EntityTextFilter_filterEntity_def Let_def toUpperArray_words words_loop_iff)
  also have "\<dots> = (\<forall>tok\<in>set (text_tokens ws value).
        (\<exists>tag\<in>set (case tags (metadata entity) of None \<Rightarrow> [] | Some ts \<Rightarrow> ts). up tag = up tok)
      \<or> sublist (up tok) (up (name (metadata entity)))
      \<or> (\<exists>t. title (metadata entity) = Some t \<and> sublist (up tok) (up t)))"
  proof (rule ball_cong [OF refl])
    fix tok assume "tok \<in> set (text_tokens ws value)"
    then have ne: "tok \<noteq> []" by (rule tok)
    show "(up tok \<in> set (toUpperArray up [item_of_array (tags (metadata entity))]) \<or>
        (\<exists>m\<in>set (toUpperArray up [IStr (name (metadata entity)),
                      item_of_string (title (metadata entity))]). sublist (up tok) m)) =
       ((\<exists>tag\<in>set (case tags (metadata entity) of None \<Rightarrow> [] | Some ts \<Rightarrow> ts). up tag = up tok)
      \<or> sublist (up tok) (up (name (metadata entity)))
      \<or> (\<exists>t. title (metadata entity) = Some t \<and> sublist (up tok) (up t)))"
      unfolding upper_exact_iff [OF up ne] upper_partial_iff [OF up ne] by (rule refl)
  qed
  finally show ?thesis .
qed

text \<open>
  C1. For every entity, the text filter answers true exactly when every token of the
  configured text matches the entity: the token has the same upper-case form as one of
  the entity's tags, or its upper-case form occurs as a contiguous part of the upper-case
  form of the entity's name or of its title. One token that matches nothing makes the
  answer false. The tokens are the pieces of the split on whitespace that are not empty;
  the statement also holds with the empty pieces counted as tokens. The upper-casing
  function is any function that maps the empty string, and only it, to the empty string.
\<close>

theorem text_filter_every_token:
  assumes up: "\<forall>s. (up s = []) = (s = [])"
  shows "filterEntity ws up (EntityTextFilter value) entity =
           Some (\<forall>tok\<in>set (text_tokens ws value). token_matches up entity tok) \<and>
         filterEntity ws up (EntityTextFilter value) entity =
           Some (\<forall>piece\<in>set (String_split ws value). token_matches up entity piece)"
proof -
  have matches: "token_matches up entity tok =
      ((\<exists>tag\<in>set (case tags (metadata entity) of None \<Rightarrow> [] | Some ts \<Rightarrow> ts). up tag = up tok)
      \<or> sublist (up tok) (up (name (metadata entity)))
      \<or> (\<exists>t. title (metadata entity) = Some t \<and> sublist (up tok) (up t)))" for tok
    by (cases "title (metadata entity)") (simp_all add: token_matches_def list_ex_iff)
  have tokens: "EntityTextFilter_filterEntity ws up value entity =
      (\<forall>tok\<in>set (text_tokens ws value). token_matches up entity tok)"
    unfolding matches by (rule EntityTextFilter_filterEntity_tokens [OF up])
  have "up [] = []" using up by simp
  then have empty: "token_matches up entity []"
    by (simp add: token_matches_def)
  have "(\<forall>piece\<in>set (String_split ws value). token_matches up entity piece) =
      (\<forall>tok\<in>set (text_tokens ws value). token_matches up entity tok)"
  proof
    assume "\<forall>piece\<in>set (String_split ws value). token_matches up entity piece"
    then show "\<forall>tok\<in>set (text_tokens ws value). token_matches up entity tok"
      by (simp add: text_tokens_def)
  next
    assume all: "\<forall>tok\<in>set (text_tokens ws value). token_matches up entity tok"
    show "\<forall>piece\<in>set (String_split ws value). token_matches up entity piece"
    proof
      fix piece assume "piece \<in> set (String_split ws value)"
      then show "token_matches up entity piece"
        using all empty by (cases "piece = []") (simp_all add: text_tokens_def)
    qed
  qed
  then show ?thesis using tokens by simp
qed

text \<open>
  The token \<open>web\<close> is a proper part of the tag \<open>webhook\<close>: the entity is rejected
  when neither name nor title contains the token, and accepted when the name does.
\<close>

theorem text_filter_every_token_witness:
  "filterEntity asciiWhitespace asciiUpperCase (EntityTextFilter ''web'')
     (entity_of_meta ((meta_named ''svc'')\<lparr>tags := Some [''webhook'']\<rparr>)) = Some False \<and>
   filterEntity asciiWhitespace asciiUpperCase (EntityTextFilter ''web'')
     (entity_of_meta ((meta_named ''My-Web-Svc'')\<lparr>tags := Some [''webhook'']\<rparr>)) = Some True"
  using text_filter_every_token [OF asciiUpperCase_Nil_iff, THEN conjunct1,
      of asciiWhitespace "''web''"
      "entity_of_meta ((meta_named ''svc'')\<lparr>tags := Some [''webhook'']\<rparr>)"]
    text_filter_every_token [OF asciiUpperCase_Nil_iff, THEN conjunct1,
      of asciiWhitespace "''web''"
      "entity_of_meta ((meta_named ''My-Web-Svc'')\<lparr>tags := Some [''webhook'']\<rparr>)"]
  by (simp add: tokens_web token_matches_def up_web up_webhook up_svc up_mywebsvc
      entity_of_meta_def meta_named_def sublist_code(3))

text \<open>
  C7. A text that is empty or made of whitespace only has no token, the array of words
  of the filter is empty, and the filter answers true for every entity.
\<close>

theorem text_filter_blank_text:
  assumes "\<forall>c\<in>set value. ws c"
  shows "text_tokens ws value = [] \<and>
         toUpperArray up (map IStr (String_split ws value)) = [] \<and>
         filterEntity ws up (EntityTextFilter value) entity = Some True"
proof -
  have "String_split ws value = replicate (Suc (length value)) []"
    using assms by (rule String_split_all_sep)
  then have tok: "text_tokens ws value = []"
    by (simp add: text_tokens_def)
  then have "toUpperArray up (map IStr (String_split ws value)) = []"
    by (simp add: toUpperArray_words)
  then show ?thesis
    using tok by (simp add: EntityTextFilter_filterEntity_def Let_def)
qed

text \<open>The empty text, and the text space, tab, space.\<close>

theorem text_filter_blank_text_witness:
  "filterEntity asciiWhitespace asciiUpperCase (EntityTextFilter '''')
     (entity_of_meta (meta_named ''svc'')) = Some True \<and>
   toUpperArray asciiUpperCase (map IStr (String_split asciiWhitespace [CHR '' '', CHR 0x09, CHR '' ''])) = [] \<and>
   filterEntity asciiWhitespace asciiUpperCase (EntityTextFilter [CHR '' '', CHR 0x09, CHR '' ''])
     (entity_of_meta (meta_named ''svc'')) = Some True"
  using text_filter_blank_text [of "''''" asciiWhitespace asciiUpperCase
      "entity_of_meta (meta_named ''svc'')"]
    text_filter_blank_text [of "[CHR '' '', CHR 0x09, CHR '' '']" asciiWhitespace asciiUpperCase
      "entity_of_meta (meta_named ''svc'')"]
  by (simp add: asciiWhitespace_def)

subsection \<open>Tag filter\<close>

lemma EntityTagFilter_subset:
  "EntityTagFilter_filterEntity values entity =
     (set values \<subseteq> set (case tags (metadata entity) of None \<Rightarrow> [] | Some ts \<Rightarrow> ts))"
  by (auto simp: EntityTagFilter_filterEntity_def Array_includes_def list_all_iff)

text \<open>
  C5. For every entity, the tag filter answers true exactly when every configured tag is
  among the entity's tags, an absent tag list counting as the empty one.
\<close>

theorem tag_filter_every_configured_tag:
  "filterEntity ws up (EntityTagFilter values) entity =
     Some (\<forall>v\<in>set values.
             v \<in> set (case tags (metadata entity) of None \<Rightarrow> [] | Some ts \<Rightarrow> ts))"
  by (auto simp: EntityTagFilter_subset)

text \<open>
  The filter configured with \<open>a\<close> and \<open>b\<close> accepts the entity tagged \<open>a\<close>, \<open>b\<close>,
  \<open>c\<close> and rejects the entity tagged \<open>a\<close> only.
\<close>

theorem tag_filter_every_configured_tag_witness:
  "filterEntity asciiWhitespace asciiUpperCase (EntityTagFilter [''a'', ''b''])
     (entity_of_meta ((meta_named ''svc'')\<lparr>tags := Some [''a'', ''b'', ''c'']\<rparr>)) = Some True \<and>
   filterEntity asciiWhitespace asciiUpperCase (EntityTagFilter [''a'', ''b''])
     (entity_of_meta ((meta_named ''svc'')\<lparr>tags := Some [''a'']\<rparr>)) = Some False"
  using tag_filter_every_configured_tag [of asciiWhitespace asciiUpperCase "[''a'', ''b'']"
      "entity_of_meta ((meta_named ''svc'')\<lparr>tags := Some [''a'', ''b'', ''c'']\<rparr>)"]
    tag_filter_every_configured_tag [of asciiWhitespace asciiUpperCase "[''a'', ''b'']"
      "entity_of_meta ((meta_named ''svc'')\<lparr>tags := Some [''a'']\<rparr>)"]
  by (simp add: entity_of_meta_def meta_named_def)

subsection \<open>Namespace filter\<close>

text \<open>
  C2. The catalog filters of a namespace filter are a mapping with the single key
  \<open>spec.lifecycle\<close>, whose value is the configured sequence of values.
\<close>

theorem namespace_filter_catalog_filters:
  "\<exists>fs. getCatalogFilters (EntityNamespaceFilter values) = Some fs \<and>
        map fst fs = [''spec.lifecycle''] \<and>
        map_of fs ''spec.lifecycle'' = Some (Many values)"
  by simp

subsection \<open>Orphan filter\<close>

text \<open>
  C8. For every entity, the orphan filter answers true exactly when the entity has
  annotations, the orphan annotation is among them, and its value is the string form of
  the configured boolean. An entity without the annotation is rejected, whatever the
  configured boolean.
\<close>

theorem orphan_filter_annotation_equal:
  "filterEntity ws up (EntityOrphanFilter value) entity =
     Some (\<exists>a. annotations (metadata entity) = Some a \<and>
               map_of a ''backstage.io/orphan'' = Some (Boolean_toString value)) \<and>
   ((case annotations (metadata entity) of
       None \<Rightarrow> None
     | Some a \<Rightarrow> map_of a ''backstage.io/orphan'') = None \<longrightarrow>
    filterEntity ws up (EntityOrphanFilter value) entity = Some False)"
  by (auto simp: EntityOrphanFilter_filterEntity_def Let_def split: option.splits)

text \<open>
  An entity without annotations, an entity whose orphan annotation is \<open>true\<close>, and an
  entity with another annotation only.
\<close>

theorem orphan_filter_annotation_equal_witness:
  "filterEntity asciiWhitespace asciiUpperCase (EntityOrphanFilter True)
     (entity_of_meta (meta_named ''svc'')) = Some False \<and>
   filterEntity asciiWhitespace asciiUpperCase (EntityOrphanFilter False)
     (entity_of_meta (meta_named ''svc'')) = Some False \<and>
   filterEntity asciiWhitespace asciiUpperCase (EntityOrphanFilter True)
     (entity_of_meta ((meta_named ''svc'')\<lparr>annotations := Some [(''backstage.io/orphan'', ''true'')]\<rparr>))
       = Some True \<and>
   filterEntity asciiWhitespace asciiUpperCase (EntityOrphanFilter False)
     (entity_of_meta ((meta_named ''svc'')\<lparr>annotations := Some [(''backstage.io/orphan'', ''true'')]\<rparr>))
       = Some False \<and>
   filterEntity asciiWhitespace asciiUpperCase (EntityOrphanFilter True)
     (entity_of_meta ((meta_named ''svc'')\<lparr>annotations := Some [(''other'', ''true'')]\<rparr>))
       = Some False"
  using orphan_filter_annotation_equal [of asciiWhitespace asciiUpperCase True
      "entity_of_meta (meta_named ''svc'')"]
    orphan_filter_annotation_equal [of asciiWhitespace asciiUpperCase False
      "entity_of_meta (meta_named ''svc'')"]
    orphan_filter_annotation_equal [of asciiWhitespace asciiUpperCase True
      "entity_of_meta ((meta_named ''svc'')\<lparr>annotations := Some [(''backstage.io/orphan'', ''true'')]\<rparr>)"]
    orphan_filter_annotation_equal [of asciiWhitespace asciiUpperCase False
      "entity_of_meta ((meta_named ''svc'')\<lparr>annotations := Some [(''backstage.io/orphan'', ''true'')]\<rparr>)"]
    orphan_filter_annotation_equal [of asciiWhitespace asciiUpperCase True
      "entity_of_meta ((meta_named ''svc'')\<lparr>annotations := Some [(''other'', ''true'')]\<rparr>)"]
  by (simp add: entity_of_meta_def meta_named_def Boolean_toString_def)

subsection \<open>Error filter\<close>

text \<open>
  C9. For every entity, the error filter answers true exactly when the proposition
  "the entity has a list of status items that is not empty" (false when the status or
  its items are absent) equals the configured boolean. A filter configured with true
  accepts an entity with one status item and rejects an entity with none.
\<close>

theorem error_filter_nonempty_items:
  "filterEntity ws up (EntityErrorFilter value) entity =
     Some (has_status_items entity = value) \<and>
   filterEntity ws up (EntityErrorFilter True)
     ((entity_of_meta m)\<lparr>status := Some \<lparr>items = Some [i]\<rparr>\<rparr>) = Some True \<and>
   filterEntity ws up (EntityErrorFilter True)
     ((entity_of_meta m)\<lparr>status := Some \<lparr>items = Some []\<rparr>\<rparr>) = Some False"
  by (auto simp: EntityErrorFilter_filterEntity_def Let_def status_items_length_def
      has_status_items_def entity_of_meta_def split: option.splits)

text \<open>Entities without a status, and with a status without items.\<close>

theorem error_filter_nonempty_items_witness:
  "filterEntity asciiWhitespace asciiUpperCase (EntityErrorFilter True)
     (entity_of_meta (meta_named ''svc'')) = Some False \<and>
   filterEntity asciiWhitespace asciiUpperCase (EntityErrorFilter False)
     (entity_of_meta (meta_named ''svc'')) = Some True \<and>
   filterEntity asciiWhitespace asciiUpperCase (EntityErrorFilter False)
     ((entity_of_meta (meta_named ''svc''))\<lparr>status := Some \<lparr>items = None\<rparr>\<rparr>) = Some True"
  using error_filter_nonempty_items [of asciiWhitespace asciiUpperCase True
      "entity_of_meta (meta_named ''svc'')"]
    error_filter_nonempty_items [of asciiWhitespace asciiUpperCase False
      "entity_of_meta (meta_named ''svc'')"]
    error_filter_nonempty_items [of asciiWhitespace asciiUpperCase False
      "(entity_of_meta (meta_named ''svc''))\<lparr>status := Some \<lparr>items = None\<rparr>\<rparr>"]
  by (simp add: has_status_items_def entity_of_meta_def)

subsection \<open>Owner filter\<close>

lemma reduce_try_catch:
  "reduce_result
     (\<lambda>fullRefs ref.
        try_catch
          (case parseEntityRef ref ''Group'' of
             Inl err \<Rightarrow> Inl err
           | Inr r \<Rightarrow> Inr (fullRefs @ [stringifyEntityRef r]))
          (\<lambda>err. Inr fullRefs))
     acc refs = Inr (acc @ normalized_parseable refs)"
proof (induction refs arbitrary: acc)
  case Nil
  show ?case by (simp add: normalized_parseable_def)
next
  case (Cons ref refs)
  show ?case
  proof (cases "parseEntityRef ref ''Group''")
    case (Inl err)
    then show ?thesis
      using Cons.IH [of acc] by (simp add: try_catch_def normalized_parseable_def)
  next
    case (Inr r)
    then show ?thesis
      using Cons.IH [of "acc @ [stringifyEntityRef r]"]
      by (simp add: try_catch_def normalized_parseable_def)
  qed
qed

lemma EntityOwnerFilter_values_eq:
  "EntityOwnerFilter_values refs = Inr (normalized_parseable refs)"
  by (simp add: EntityOwnerFilter_values_def reduce_try_catch)

lemma normalized_parseable_length:
  "length (normalized_parseable refs) = length (filter parseable refs)"
  by (induction refs) (auto simp: normalized_parseable_def parseable_def split: sum.splits)

lemma normalized_parseable_map_filter:
  "normalized_parseable refs =
     map (\<lambda>ref. case parseEntityRef ref ''Group'' of Inr r \<Rightarrow> stringifyEntityRef r | Inl err \<Rightarrow> ref)
       (filter parseable refs)"
  by (induction refs) (auto simp: normalized_parseable_def parseable_def split: sum.splits)

lemma parse_full: "parseEntityRef ''group:default/team-a'' ''Group'' =
    Inr (CompoundEntityRef ''group'' ''default'' ''team-a'')"
  by (simp add: parseEntityRef_def valid_ref_part_def valid_ref_char_def)

lemma parse_bare: "parseEntityRef ''team-a'' ''Group'' =
    Inr (CompoundEntityRef ''Group'' ''default'' ''team-a'')"
  by (simp add: parseEntityRef_def valid_ref_part_def valid_ref_char_def DEFAULT_NAMESPACE_def)

lemma parse_invalid: "parseEntityRef ''!!!invalid!!!'' ''Group'' = Inl ParseError"
  by (simp add: parseEntityRef_def valid_ref_part_def valid_ref_char_def)

lemma split_first_found: "c \<notin> set a \<Longrightarrow> split_first c (a @ c # b) = Some (a, b)"
  by (induction a) (auto simp: split_first_def)

lemma targetEntityRef_canonical:
  "CHR '':'' \<notin> set k \<Longrightarrow> CHR ''/'' \<notin> set ns \<Longrightarrow>
   targetEntityRef (k @ '':'' @ ns @ ''/'' @ n) = CompoundEntityRef k ns n"
  by (simp add: targetEntityRef_def split_first_found)

lemma target_team_a:
  "targetEntityRef ''group:default/team-a'' = CompoundEntityRef ''group'' ''default'' ''team-a''"
  using targetEntityRef_canonical [of "''group''" "''default''" "''team-a''"] by simp

lemma stringify_team_a:
  "stringifyEntityRef (CompoundEntityRef ''group'' ''default'' ''team-a'') = ''group:default/team-a''"
  "stringifyEntityRef (CompoundEntityRef ''Group'' ''default'' ''team-a'') = ''group:default/team-a''"
  by (simp_all add: stringifyEntityRef_def asciiLowerCase_def toLowerChar_def)

text \<open>
  C3. The constructor of the owner filter returns a filter for every list of raw
  references; the query value of that filter is the list of the normalized forms
  (default kind \<open>Group\<close>) of the references that parse, in their order, so that it has
  one entry for each reference that parses and none for the others. Constructed from
  \<open>group:default/team-a\<close> and \<open>!!!invalid!!!\<close>, the filter has exactly one entry.
\<close>

theorem owner_constructor_drops_unparseable:
  "(\<exists>f. new_EntityOwnerFilter refs = Inr f \<and>
        toQueryValue f = Some (Many (normalized_parseable refs))) \<and>
   length (normalized_parseable refs) = length (filter parseable refs) \<and>
   new_EntityOwnerFilter [''group:default/team-a'', ''!!!invalid!!!''] =
     Inr (EntityOwnerFilter [''group:default/team-a'']) \<and>
   toQueryValue (EntityOwnerFilter [''group:default/team-a'']) =
     Some (Many [''group:default/team-a''])"
proof -
  have "normalized_parseable [''group:default/team-a'', ''!!!invalid!!!''] = [''group:default/team-a'']"
    by (simp add: normalized_parseable_def parse_full parse_invalid stringify_team_a)
  then show ?thesis
    by (simp add: new_EntityOwnerFilter_def EntityOwnerFilter_values_eq normalized_parseable_length)
qed

lemma EntityOwnerFilter_filterEntity_iff:
  "EntityOwnerFilter_filterEntity values entity =
     (\<exists>r\<in>set (case relations entity of None \<Rightarrow> [] | Some rs \<Rightarrow> rs).
        type r = ''ownedBy'' \<and>
        stringifyEntityRef (targetEntityRef (targetRef r)) \<in> set values)"
  by (auto simp: EntityOwnerFilter_filterEntity_def getEntityRelations_def RELATION_OWNED_BY_def
      list_ex_iff)

text \<open>
  C4. For every entity, the owner filter answers true exactly when some relation of the
  entity has the type \<open>ownedBy\<close> and a target whose canonical string is one of the
  configured references.
\<close>

theorem owner_filter_owned_by_relation:
  "filterEntity ws up (EntityOwnerFilter values) entity =
     Some (\<exists>r\<in>set (case relations entity of None \<Rightarrow> [] | Some rs \<Rightarrow> rs).
             type r = ''ownedBy'' \<and>
             stringifyEntityRef (targetEntityRef (targetRef r)) \<in> set values)"
  by (simp add: EntityOwnerFilter_filterEntity_iff)

text \<open>
  The filter constructed from \<open>team-a\<close> accepts an entity owned by
  \<open>group:default/team-a\<close>, and rejects an entity that has this target under another
  relation type.
\<close>

theorem owner_filter_owned_by_relation_witness:
  "new_EntityOwnerFilter [''team-a''] = Inr (EntityOwnerFilter [''group:default/team-a'']) \<and>
   filterEntity asciiWhitespace asciiUpperCase (EntityOwnerFilter [''group:default/team-a''])
     ((entity_of_meta (meta_named ''svc''))\<lparr>relations := Some
        [\<lparr>type = ''ownedBy'',
          targetRef = ''group:default/team-a''\<rparr>]\<rparr>) = Some True \<and>
   filterEntity asciiWhitespace asciiUpperCase (EntityOwnerFilter [''group:default/team-a''])
     ((entity_of_meta (meta_named ''svc''))\<lparr>relations := Some
        [\<lparr>type = ''partOf'',
          targetRef = ''group:default/team-a''\<rparr>]\<rparr>) = Some False"
proof -
  have "normalized_parseable [''team-a''] = [''group:default/team-a'']"
    by (simp add: normalized_parseable_def parse_bare stringify_team_a)
  then have "new_EntityOwnerFilter [''team-a''] = Inr (EntityOwnerFilter [''group:default/team-a''])"
    by (simp add: new_EntityOwnerFilter_def EntityOwnerFilter_values_eq)
  then show ?thesis
    using owner_filter_owned_by_relation [of asciiWhitespace asciiUpperCase
        "[''group:default/team-a'']"
        "(entity_of_meta (meta_named ''svc''))\<lparr>relations := Some
          [\<lparr>type = ''ownedBy'',
            targetRef = ''group:default/team-a''\<rparr>]\<rparr>"]
      owner_filter_owned_by_relation [of asciiWhitespace asciiUpperCase
        "[''group:default/team-a'']"
        "(entity_of_meta (meta_named ''svc''))\<lparr>relations := Some
          [\<lparr>type = ''partOf'',
            targetRef = ''group:default/team-a''\<rparr>]\<rparr>"]
    by (simp add: target_team_a stringify_team_a entity_of_meta_def)
qed

subsection \<open>Empty configurations\<close>

lemma EntityOwnerFilter_values_Nil: "EntityOwnerFilter_values [] = Inr []"
  by (simp add: EntityOwnerFilter_values_def)

text \<open>
  C10. For every entity, a tag filter with no configured value answers true, whereas an
  owner filter constructed from no reference, a lifecycle filter and a namespace filter
  with no configured value answer false.
\<close>

theorem empty_configuration:
  "filterEntity ws up (EntityTagFilter []) entity = Some True \<and>
   (\<exists>f. new_EntityOwnerFilter [] = Inr f \<and> filterEntity ws up f entity = Some False) \<and>
   filterEntity ws up (EntityLifecycleFilter []) entity = Some False \<and>
   filterEntity ws up (EntityNamespaceFilter []) entity = Some False"
  by (simp add: EntityTagFilter_filterEntity_def new_EntityOwnerFilter_def
      EntityOwnerFilter_values_Nil EntityOwnerFilter_filterEntity_def
      EntityLifecycleFilter_filterEntity_def EntityNamespaceFilter_filterEntity_def)

subsection \<open>No filter raises on a well-typed entity\<close>

lemma bind_result_Inr: "bind_result (Inr v) f = f v"
  by (simp add: bind_result_def)

lemma bind_result_Inl: "bind_result (Inl e) f = Inl e"
  by (simp add: bind_result_def)

lemma every_result_Inr: "every_result (\<lambda>x. Inr (P x)) xs = Inr (list_all P xs)"
  by (induction xs) auto

lemma some_result_Inr: "some_result (\<lambda>x. Inr (P x)) xs = Inr (list_ex P xs)"
  by (induction xs) auto

lemma map_result_Inr: "map_result (\<lambda>x. Inr (g x)) xs = Inr (map g xs)"
  by (induction xs) auto

lemma filter_result_Inr: "filter_result (\<lambda>x. Inr (P x)) xs = Inr (filter P xs)"
  by (induction xs) auto

lemma member_entity_metadata:
  "js_member (js_of_entity e) ''metadata'' = Inr (js_of_meta (metadata e))"
  by (simp add: js_of_entity_def)

lemma member_entity_spec:
  "js_member (js_of_entity e) ''spec'' =
     Inr (case spec e of None \<Rightarrow> JUndefined | Some s \<Rightarrow> js_of_spec s)"
  by (simp add: js_of_entity_def js_field_def split: option.splits)

lemma member_entity_relations:
  "js_member (js_of_entity e) ''relations'' =
     Inr (case relations e of None \<Rightarrow> JUndefined | Some rs \<Rightarrow> JArr (map js_of_relation rs))"
  by (simp add: js_of_entity_def js_field_def split: option.splits)

lemma member_entity_status:
  "js_optional_member (js_of_entity e) ''status'' =
     Inr (case status e of None \<Rightarrow> JUndefined | Some st \<Rightarrow> js_of_status st)"
  by (simp add: js_of_entity_def js_field_def split: option.splits)

lemma member_meta_name: "js_member (js_of_meta m) ''name'' = Inr (JStr (name m))"
  by (simp add: js_of_meta_def)

lemma member_meta_namespace:
  "js_member (js_of_meta m) ''namespace'' =
     Inr (case namespace m of None \<Rightarrow> JUndefined | Some s \<Rightarrow> JStr s)"
  by (simp add: js_of_meta_def js_field_def split: option.splits)

lemma member_meta_title:
  "js_member (js_of_meta m) ''title'' =
     Inr (case title m of None \<Rightarrow> JUndefined | Some s \<Rightarrow> JStr s)"
  by (simp add: js_of_meta_def js_field_def split: option.splits)

lemma member_meta_tags:
  "js_member (js_of_meta m) ''tags'' =
     Inr (case tags m of None \<Rightarrow> JUndefined | Some ts \<Rightarrow> JArr (map JStr ts))"
  by (simp add: js_of_meta_def js_field_def split: option.splits)

lemma member_meta_annotations:
  "js_member (js_of_meta m) ''annotations'' =
     Inr (case annotations m of
            None \<Rightarrow> JUndefined
          | Some a \<Rightarrow> JObj (map (\<lambda>(k, v). (k, JStr v)) a))"
  by (simp add: js_of_meta_def js_field_def split: option.splits)

lemma map_of_JStr:
  "map_of (map (\<lambda>(k, v). (k, JStr v)) a) key = map_option JStr (map_of a key)"
  by (induction a) auto

lemma js_tag_filter:
  "js_EntityTagFilter_filterEntity values (js_of_entity e) =
     Inr (EntityTagFilter_filterEntity values e)"
proof -
  have "js_includes (js_nullish (case ts of None \<Rightarrow> JUndefined | Some xs \<Rightarrow> JArr (map JStr xs))
          (JArr [])) (JStr v) =
        Inr (Array_includes (case ts of None \<Rightarrow> [] | Some xs \<Rightarrow> xs) v)" for ts v
    by (cases ts) (auto simp: Array_includes_def)
  then show ?thesis
    by (simp add: js_EntityTagFilter_filterEntity_def EntityTagFilter_filterEntity_def
        member_entity_metadata member_meta_tags bind_result_Inr every_result_Inr)
qed

lemma js_lifecycle_filter:
  "js_EntityLifecycleFilter_filterEntity values (js_of_entity e) =
     Inr (EntityLifecycleFilter_filterEntity values e)"
proof -
  have "bind_result (js_optional_member (case spec e of None \<Rightarrow> JUndefined | Some s \<Rightarrow> js_of_spec s)
           ''lifecycle'') (\<lambda>l. Inr (js_strict_equals l (JStr v))) =
        Inr ((case spec e of None \<Rightarrow> None | Some s \<Rightarrow> lifecycle s) = Some v)" for v
    by (auto simp: js_of_spec_def js_field_def js_strict_equals_def bind_result_Inr
        split: option.splits)
  then show ?thesis
    by (simp add: js_EntityLifecycleFilter_filterEntity_def EntityLifecycleFilter_filterEntity_def
        member_entity_spec bind_result_Inr some_result_Inr)
qed

lemma js_namespace_filter:
  "js_EntityNamespaceFilter_filterEntity values (js_of_entity e) =
     Inr (EntityNamespaceFilter_filterEntity values e)"
proof -
  have "js_strict_equals (case namespace (metadata e) of None \<Rightarrow> JUndefined | Some s \<Rightarrow> JStr s)
          (JStr v) = (namespace (metadata e) = Some v)" for v
    by (auto simp: js_strict_equals_def split: option.splits)
  then show ?thesis
    by (simp add: js_EntityNamespaceFilter_filterEntity_def EntityNamespaceFilter_filterEntity_def
        member_entity_metadata member_meta_namespace bind_result_Inr some_result_Inr)
qed

lemma js_user_list_filter:
  "js_UserListFilter_filterEntity value isOwnedEntity isStarredEntity (js_of_entity e) =
     Inr (UserListFilter_filterEntity value (\<lambda>x. isOwnedEntity (js_of_entity x))
            (\<lambda>x. isStarredEntity (js_of_entity x)) e)"
  by (simp add: js_UserListFilter_filterEntity_def UserListFilter_filterEntity_def)

lemma js_orphan_filter:
  "js_EntityOrphanFilter_filterEntity value (js_of_entity e) =
     Inr (EntityOrphanFilter_filterEntity value e)"
proof (cases "annotations (metadata e)")
  case None
  then show ?thesis
    by (simp add: js_EntityOrphanFilter_filterEntity_def EntityOrphanFilter_filterEntity_def
        member_entity_metadata member_meta_annotations bind_result_Inr js_strict_equals_def)
next
  case (Some a)
  then show ?thesis
    by (cases "map_of a ''backstage.io/orphan''")
       (auto simp: js_EntityOrphanFilter_filterEntity_def EntityOrphanFilter_filterEntity_def
        member_entity_metadata member_meta_annotations bind_result_Inr js_strict_equals_def
        map_of_JStr)
qed

lemma js_error_filter:
  "js_EntityErrorFilter_filterEntity value (js_of_entity e) =
     Inr (EntityErrorFilter_filterEntity value e)"
proof (cases "status e")
  case None
  then show ?thesis
    by (auto simp: js_EntityErrorFilter_filterEntity_def EntityErrorFilter_filterEntity_def
        member_entity_status bind_result_Inr js_strict_equals_def status_items_length_def)
next
  case (Some st)
  then show ?thesis
    by (cases "items st")
       (auto simp: js_EntityErrorFilter_filterEntity_def EntityErrorFilter_filterEntity_def
        member_entity_status bind_result_Inr js_strict_equals_def status_items_length_def
        js_of_status_def js_field_def)
qed

lemma flat_element_item:
  "js_flat_element (js_of_upper_item i) = map js_of_string_option (flat_item i)"
  by (cases i) (simp_all add: js_of_upper_item_def js_of_string_option_def comp_def)

lemma flat_items:
  "concat (map js_flat_element (map js_of_upper_item its)) =
     map js_of_string_option (concat (map flat_item its))"
  by (induction its) (simp_all add: flat_element_item)

lemma filter_js_Boolean:
  "filter js_Boolean (map js_of_string_option ms) = map JStr (filter_Boolean ms)"
proof (induction ms)
  case Nil
  show ?case by simp
next
  case (Cons m ms)
  then show ?case by (cases m) (simp_all add: js_of_string_option_def)
qed

lemma map_upper_strings:
  "map_result (js_toLocaleUpperCase up) (map JStr xs) = Inr (map JStr (map up xs))"
  by (induction xs) simp_all

lemma js_toUpperArray_items:
  "js_toUpperArray up (map js_of_upper_item its) = Inr (map JStr (toUpperArray up its))"
  by (simp only: js_toUpperArray_def toUpperArray_def flat_items filter_js_Boolean map_upper_strings)

lemma not_equal_strings:
  "every_result (\<lambda>m. Inr (\<not> js_strict_equals m (JStr w))) (map JStr ex) =
     Inr (list_all (\<lambda>m. m \<noteq> w) ex)"
  by (simp add: every_result_Inr js_strict_equals_def list_all_iff)

lemma not_includes_strings:
  "every_result (\<lambda>m. bind_result (js_includes m (JStr w)) (\<lambda>b. Inr (\<not> b))) (map JStr pa) =
     Inr (list_all (\<lambda>m. \<not> String_includes m w) pa)"
  by (induction pa) (simp_all add: bind_result_Inr)

lemma js_words_loop_strings:
  "js_words_loop (map JStr ex) (map JStr pa) (map JStr ws) = Inr (words_loop ex pa ws)"
proof (induction ws)
  case Nil
  show ?case by simp
next
  case (Cons w ws)
  then show ?case
    by (simp add: not_equal_strings not_includes_strings)
qed

lemma js_text_filter:
  "js_EntityTextFilter_filterEntity ws up value (js_of_entity e) =
     Inr (EntityTextFilter_filterEntity ws up value e)"
proof -
  have words: "js_toUpperArray up (map JStr (String_split ws value)) =
      Inr (map JStr (toUpperArray up (map IStr (String_split ws value))))"
    using js_toUpperArray_items [of up "map IStr (String_split ws value)"]
    by (simp add: js_of_upper_item_def comp_def)
  have exact: "js_toUpperArray up
        [case tags (metadata e) of None \<Rightarrow> JUndefined | Some ts \<Rightarrow> JArr (map JStr ts)] =
      Inr (map JStr (toUpperArray up [item_of_array (tags (metadata e))]))"
    using js_toUpperArray_items [of up "[item_of_array (tags (metadata e))]"]
    by (simp add: js_of_upper_item_def item_of_array_def split: option.splits)
  have partial: "js_toUpperArray up
        [JStr (name (metadata e)),
         case title (metadata e) of None \<Rightarrow> JUndefined | Some s \<Rightarrow> JStr s] =
      Inr (map JStr (toUpperArray up
        [IStr (name (metadata e)), item_of_string (title (metadata e))]))"
    using js_toUpperArray_items [of up
        "[IStr (name (metadata e)), item_of_string (title (metadata e))]"]
    by (simp add: js_of_upper_item_def item_of_string_def split: option.splits)
  show ?thesis
    by (simp add: js_EntityTextFilter_filterEntity_def EntityTextFilter_filterEntity_def Let_def
        member_entity_metadata member_meta_tags member_meta_name member_meta_title
        words exact partial bind_result_Inr js_words_loop_strings)
qed

lemma js_stringify_ref: "js_stringifyEntityRef (js_of_ref r) = Inr (stringifyEntityRef r)"
  by (simp add: js_stringifyEntityRef_def js_of_ref_def stringifyEntityRef_def bind_result_Inr)

lemma filter_relations:
  "filter_result
     (\<lambda>r. bind_result (js_member r ''type'') (\<lambda>t. Inr (js_strict_equals t (JStr relationType))))
     (map js_of_relation rs) =
   Inr (map js_of_relation (filter (\<lambda>r. type r = relationType) rs))"
  by (induction rs) (simp_all add: js_of_relation_def bind_result_Inr js_strict_equals_def)

lemma js_target_ref: "js_targetEntityRef (JStr t) = Inr (js_of_ref (targetEntityRef t))"
  by (simp add: js_of_ref_def)

lemma map_targets:
  "map_result (\<lambda>r. bind_result (js_member r ''targetRef'') js_targetEntityRef)
     (map js_of_relation rs) =
   Inr (map js_of_ref (map (\<lambda>r. targetEntityRef (targetRef r)) rs))"
  by (induction rs) (simp_all add: js_of_relation_def bind_result_Inr js_of_ref_def)

lemma js_get_relations:
  "js_getEntityRelations (js_of_entity e) relationType =
     Inr (map js_of_ref (getEntityRelations e relationType))"
proof (cases "relations e")
  case None
  then show ?thesis
    by (simp add: js_getEntityRelations_def getEntityRelations_def member_entity_relations
        bind_result_Inr)
next
  case (Some rs)
  then show ?thesis
    by (simp add: js_getEntityRelations_def getEntityRelations_def member_entity_relations
        bind_result_Inr filter_relations map_targets)
qed

lemma some_owner:
  "some_result (\<lambda>o'. bind_result (js_stringifyEntityRef o') (\<lambda>s. Inr (s = v)))
     (map js_of_ref os) =
   Inr (list_ex (\<lambda>o'. stringifyEntityRef o' = v) os)"
  by (induction os) (simp_all add: js_stringify_ref bind_result_Inr)

lemma js_owner_filter:
  "js_EntityOwnerFilter_filterEntity values (js_of_entity e) =
     Inr (EntityOwnerFilter_filterEntity values e)"
  by (simp add: js_EntityOwnerFilter_filterEntity_def EntityOwnerFilter_filterEntity_def
      js_get_relations bind_result_Inr some_owner some_result_Inr)

text \<open>
  The evaluation on values can raise: an object without \<open>metadata\<close> is not an entity,
  and the tag filter raises on it; a relation without a target is not a relation, and
  the owner filter raises on it (the second lemma, below).
\<close>

lemma js_tag_filter_ill_typed:
  "js_EntityTagFilter_filterEntity [''a''] (JObj []) = Inl TypeError"
  by (simp add: js_EntityTagFilter_filterEntity_def bind_result_def)

lemma js_member_undefined: "js_member JUndefined p = Inl TypeError"
  by simp

lemma js_owner_filter_ill_typed:
  "js_EntityOwnerFilter_filterEntity [''group:default/team-a'']
     (JObj [(''metadata'', JObj [(''name'', JStr ''svc'')]),
            (''relations'', JArr [JObj [(''type'', JStr ''ownedBy'')]])]) = Inl TypeError"
  by (simp add: js_EntityOwnerFilter_filterEntity_def js_getEntityRelations_def
      bind_result_def RELATION_OWNED_BY_def js_strict_equals_def)

text \<open>
  C6. For every filter class with a \<open>filterEntity\<close> and every well-typed entity, with
  any of its optional fields absent and with any strings as the targets of its
  relations, the evaluation of \<open>filterEntity\<close> on the entity's value raises no error and
  returns a boolean, the one the typed reading of the entity gives.
\<close>

theorem filterEntity_total_on_entities:
  "js_EntityTagFilter_filterEntity values (js_of_entity entity) =
     Inr (EntityTagFilter_filterEntity values entity) \<and>
   js_EntityTextFilter_filterEntity ws up text (js_of_entity entity) =
     Inr (EntityTextFilter_filterEntity ws up text entity) \<and>
   js_EntityOwnerFilter_filterEntity values (js_of_entity entity) =
     Inr (EntityOwnerFilter_filterEntity values entity) \<and>
   js_EntityLifecycleFilter_filterEntity values (js_of_entity entity) =
     Inr (EntityLifecycleFilter_filterEntity values entity) \<and>
   js_EntityNamespaceFilter_filterEntity values (js_of_entity entity) =
     Inr (EntityNamespaceFilter_filterEntity values entity) \<and>
   js_UserListFilter_filterEntity kind isOwnedEntity isStarredEntity (js_of_entity entity) =
     Inr (UserListFilter_filterEntity kind (\<lambda>x. isOwnedEntity (js_of_entity x))
            (\<lambda>x. isStarredEntity (js_of_entity x)) entity) \<and>
   js_EntityOrphanFilter_filterEntity flag (js_of_entity entity) =
     Inr (EntityOrphanFilter_filterEntity flag entity) \<and>
   js_EntityErrorFilter_filterEntity flag (js_of_entity entity) =
     Inr (EntityErrorFilter_filterEntity flag entity)"
  by (simp only: js_tag_filter js_text_filter js_owner_filter js_lifecycle_filter
      js_namespace_filter js_user_list_filter js_orphan_filter js_error_filter simp_thms)

text \<open>
  The entity with no optional field at all; an entity owned by \<open>group:default/team-a\<close>,
  whose value holds the target as a string; and an entity whose target is not of the
  form \<open>kind:namespace/name\<close>.
\<close>

theorem filterEntity_total_on_entities_witness:
  "js_EntityTagFilter_filterEntity [''a''] (js_of_entity (entity_of_meta (meta_named ''svc''))) =
     Inr False \<and>
   js_EntityTextFilter_filterEntity asciiWhitespace asciiUpperCase ''web''
     (js_of_entity (entity_of_meta (meta_named ''svc''))) = Inr False \<and>
   js_EntityOwnerFilter_filterEntity [''group:default/team-a'']
     (js_of_entity (entity_of_meta (meta_named ''svc''))) = Inr False \<and>
   js_EntityLifecycleFilter_filterEntity [''production'']
     (js_of_entity (entity_of_meta (meta_named ''svc''))) = Inr False \<and>
   js_EntityNamespaceFilter_filterEntity [''default'']
     (js_of_entity (entity_of_meta (meta_named ''svc''))) = Inr False \<and>
   js_UserListFilter_filterEntity ''all'' (\<lambda>x. False) (\<lambda>x. False)
     (js_of_entity (entity_of_meta (meta_named ''svc''))) = Inr True \<and>
   js_EntityOrphanFilter_filterEntity True
     (js_of_entity (entity_of_meta (meta_named ''svc''))) = Inr False \<and>
   js_EntityErrorFilter_filterEntity False
     (js_of_entity (entity_of_meta (meta_named ''svc''))) = Inr True \<and>
   js_EntityOwnerFilter_filterEntity [''group:default/team-a'']
     (JObj [(''metadata'', JObj [(''name'', JStr ''svc'')]),
            (''relations'',
             JArr [JObj [(''type'', JStr ''ownedBy''),
                         (''targetRef'', JStr ''group:default/team-a'')]])]) = Inr True \<and>
   js_EntityOwnerFilter_filterEntity [''group:default/team-a'']
     (JObj [(''metadata'', JObj [(''name'', JStr ''svc'')]),
            (''relations'',
             JArr [JObj [(''type'', JStr ''ownedBy''),
                         (''targetRef'', JStr ''!!!'')]])]) = Inr False"
proof -
  have web: "EntityTextFilter_filterEntity asciiWhitespace asciiUpperCase ''web''
      (entity_of_meta (meta_named ''svc'')) = False"
    unfolding EntityTextFilter_filterEntity_def Let_def toUpperArray_words tokens_web
      toUpperArray_tags toUpperArray_name_title
    by (simp add: entity_of_meta_def meta_named_def up_web up_svc String_includes_def
        sublist_code(3))
  have bare: "js_EntityTagFilter_filterEntity [''a'']
       (js_of_entity (entity_of_meta (meta_named ''svc''))) = Inr False \<and>
     js_EntityTextFilter_filterEntity asciiWhitespace asciiUpperCase ''web''
       (js_of_entity (entity_of_meta (meta_named ''svc''))) = Inr False \<and>
     js_EntityOwnerFilter_filterEntity [''group:default/team-a'']
       (js_of_entity (entity_of_meta (meta_named ''svc''))) = Inr False \<and>
     js_EntityLifecycleFilter_filterEntity [''production'']
       (js_of_entity (entity_of_meta (meta_named ''svc''))) = Inr False \<and>
     js_EntityNamespaceFilter_filterEntity [''default'']
       (js_of_entity (entity_of_meta (meta_named ''svc''))) = Inr False \<and>
     js_UserListFilter_filterEntity ''all'' (\<lambda>x. False) (\<lambda>x. False)
       (js_of_entity (entity_of_meta (meta_named ''svc''))) = Inr True \<and>
     js_EntityOrphanFilter_filterEntity True
       (js_of_entity (entity_of_meta (meta_named ''svc''))) = Inr False \<and>
     js_EntityErrorFilter_filterEntity False
       (js_of_entity (entity_of_meta (meta_named ''svc''))) = Inr True"
    using filterEntity_total_on_entities [of "[''a'']" "entity_of_meta (meta_named ''svc'')"
        asciiWhitespace asciiUpperCase "''web''" "''all''" "\<lambda>x. False" "\<lambda>x. False" True]
      filterEntity_total_on_entities [of "[''group:default/team-a'']"
        "entity_of_meta (meta_named ''svc'')"
        asciiWhitespace asciiUpperCase "''web''" "''all''" "\<lambda>x. False" "\<lambda>x. False" False]
      filterEntity_total_on_entities [of "[''production'']"
        "entity_of_meta (meta_named ''svc'')"
        asciiWhitespace asciiUpperCase "''web''" "''all''" "\<lambda>x. False" "\<lambda>x. False" False]
      filterEntity_total_on_entities [of "[''default'']"
        "entity_of_meta (meta_named ''svc'')"
        asciiWhitespace asciiUpperCase "''web''" "''all''" "\<lambda>x. False" "\<lambda>x. False" False]
    by (simp add: web [unfolded entity_of_meta_def meta_named_def]
        EntityTagFilter_filterEntity_def Array_includes_def
        EntityOwnerFilter_filterEntity_def getEntityRelations_def
        EntityLifecycleFilter_filterEntity_def EntityNamespaceFilter_filterEntity_def
        UserListFilter_filterEntity_def EntityOrphanFilter_filterEntity_def
        EntityErrorFilter_filterEntity_def status_items_length_def
        entity_of_meta_def meta_named_def)
  have value_of: "js_of_entity ((entity_of_meta (meta_named ''svc''))\<lparr>relations := Some
        [\<lparr>type = ''ownedBy'', targetRef = t\<rparr>]\<rparr>) =
      JObj [(''metadata'', JObj [(''name'', JStr ''svc'')]),
            (''relations'',
             JArr [JObj [(''type'', JStr ''ownedBy''), (''targetRef'', JStr t)]])]" for t
    by (simp add: js_of_entity_def js_of_meta_def js_of_relation_def js_field_def
        entity_of_meta_def meta_named_def)
  have other: "stringifyEntityRef (targetEntityRef ''!!!'') = '':default/!!!''"
    by (simp add: targetEntityRef_def split_first_def DEFAULT_NAMESPACE_def
        stringifyEntityRef_def asciiLowerCase_def toLowerChar_def)
  have owned: "js_EntityOwnerFilter_filterEntity [''group:default/team-a'']
      (js_of_entity ((entity_of_meta (meta_named ''svc''))\<lparr>relations := Some
        [\<lparr>type = ''ownedBy'', targetRef = ''group:default/team-a''\<rparr>]\<rparr>)) = Inr True"
    using filterEntity_total_on_entities [of "[''group:default/team-a'']"
        "(entity_of_meta (meta_named ''svc''))\<lparr>relations := Some
          [\<lparr>type = ''ownedBy'', targetRef = ''group:default/team-a''\<rparr>]\<rparr>"
        asciiWhitespace asciiUpperCase "''web''" "''all''" "\<lambda>x. False" "\<lambda>x. False" False]
    by (simp add: EntityOwnerFilter_filterEntity_iff target_team_a stringify_team_a
        entity_of_meta_def)
  have not_owned: "js_EntityOwnerFilter_filterEntity [''group:default/team-a'']
      (js_of_entity ((entity_of_meta (meta_named ''svc''))\<lparr>relations := Some
        [\<lparr>type = ''ownedBy'', targetRef = ''!!!''\<rparr>]\<rparr>)) = Inr False"
    using filterEntity_total_on_entities [of "[''group:default/team-a'']"
        "(entity_of_meta (meta_named ''svc''))\<lparr>relations := Some
          [\<lparr>type = ''ownedBy'', targetRef = ''!!!''\<rparr>]\<rparr>"
        asciiWhitespace asciiUpperCase "''web''" "''all''" "\<lambda>x. False" "\<lambda>x. False" False]
    by (simp add: EntityOwnerFilter_filterEntity_iff other entity_of_meta_def)
  show ?thesis
    using bare owned [unfolded value_of] not_owned [unfolded value_of] by simp
qed

end
